theory Spec2Isabelle
  imports Main
begin

section \<open>JavaScript strings\<close>

text \<open>
  A JavaScript string is modelled as a \<^typ>\<open>string\<close> whose characters are the code units
  \<open>0x00\<close> to \<open>0xFF\<close>. The string operations below are the library functions the process
  controller calls, written out for that range.
\<close>

definition dq :: char where
  "dq = CHR 0x22"

definition bslash :: char where
  "bslash = CHR 0x5C"

definition LF :: char where
  "LF = CHR 0x0A"

definition CR :: char where
  "CR = CHR 0x0D"

definition code :: "char \<Rightarrow> nat" where
  "code c = of_char c"

text \<open>The characters that \<open>\s\<close>, \<open>trim\<close> and \<open>parseInt\<close> treat as white space:
  TAB, LF, VT, FF, CR, SP and NBSP.\<close>

definition isWhiteSpace :: "char \<Rightarrow> bool" where
  "isWhiteSpace c = (let n = code c in (9 \<le> n \<and> n \<le> 13) \<or> n = 32 \<or> n = 160)"

text \<open>The characters that \<open>.\<close> does not match.\<close>

definition isLineTerminator :: "char \<Rightarrow> bool" where
  "isLineTerminator c = (c = LF \<or> c = CR)"

definition isDigit :: "char \<Rightarrow> bool" where
  "isDigit c = (let n = code c in 48 \<le> n \<and> n \<le> 57)"

definition isUpper :: "char \<Rightarrow> bool" where
  "isUpper c = (let n = code c in (65 \<le> n \<and> n \<le> 90) \<or> (192 \<le> n \<and> n \<le> 222 \<and> n \<noteq> 215))"

definition isLower :: "char \<Rightarrow> bool" where
  "isLower c = (let n = code c in (97 \<le> n \<and> n \<le> 122) \<or> (224 \<le> n \<and> n \<le> 254 \<and> n \<noteq> 247))"

text \<open>An upper-case letter and its lower-case partner differ in the bit of weight 32.\<close>

definition lowerChar :: "char \<Rightarrow> char" where
  "lowerChar c =
     (if isUpper c
      then (case c of Char b0 b1 b2 b3 b4 b5 b6 b7 \<Rightarrow> Char b0 b1 b2 b3 b4 True b6 b7)
      else c)"

definition upperChar :: "char \<Rightarrow> char" where
  "upperChar c =
     (if isLower c
      then (case c of Char b0 b1 b2 b3 b4 b5 b6 b7 \<Rightarrow> Char b0 b1 b2 b3 b4 False b6 b7)
      else c)"

definition toLowerCase :: "string \<Rightarrow> string" where
  "toLowerCase s = map lowerChar s"

fun startsWith :: "string \<Rightarrow> string \<Rightarrow> bool" where
  "startsWith s [] = True"
| "startsWith [] (p # ps) = False"
| "startsWith (c # cs) (p # ps) = (c = p \<and> startsWith cs ps)"

fun includesStr :: "string \<Rightarrow> string \<Rightarrow> bool" where
  "includesStr [] sub = startsWith [] sub"
| "includesStr (c # cs) sub = (startsWith (c # cs) sub \<or> includesStr cs sub)"

definition trim :: "string \<Rightarrow> string" where
  "trim s = rev (dropWhile isWhiteSpace (rev (dropWhile isWhiteSpace s)))"

text \<open>\<open>s.split(/\r?\n/)\<close>: a separator is LF, or CR directly followed by LF. The first
  argument is the piece read so far.\<close>

fun splitLines :: "string \<Rightarrow> string \<Rightarrow> string list" where
  "splitLines cur [] = [cur]"
| "splitLines cur [c] = (if c = LF then [cur, []] else [cur @ [c]])"
| "splitLines cur (c # d # cs) =
     (if c = LF then cur # splitLines [] (d # cs)
      else if c = CR \<and> d = LF then cur # splitLines [] cs
      else splitLines (cur @ [c]) (d # cs))"

text \<open>\<open>s.split(/\s+/)\<close>: a separator is a maximal run of white space.\<close>

function splitWs :: "string \<Rightarrow> string \<Rightarrow> string list" where
  "splitWs cur [] = [cur]"
| "splitWs cur (c # cs) =
     (if isWhiteSpace c then cur # splitWs [] (dropWhile isWhiteSpace cs)
      else splitWs (cur @ [c]) cs)"
  by pat_completeness auto
termination
  by (relation "measure (\<lambda>(cur, s). length s)")
     (auto simp: less_Suc_eq_le length_dropWhile_le)

text \<open>\<open>parts.join(' ')\<close>.\<close>

fun joinSp :: "string list \<Rightarrow> string" where
  "joinSp [] = []"
| "joinSp [p] = p"
| "joinSp (p # q # ps) = p @ CHR '' '' # joinSp (q # ps)"

text \<open>\<open>s.replace(/\//g, '\\')\<close>.\<close>

definition slashesToBackslashes :: "string \<Rightarrow> string" where
  "slashesToBackslashes s = map (\<lambda>c. if c = CHR ''/'' then bslash else c) s"

subsection \<open>parseInt\<close>

definition digitValue :: "char \<Rightarrow> nat" where
  "digitValue c =
     (let n = code c
      in if 48 \<le> n \<and> n \<le> 57 then n - 48
         else if 97 \<le> n \<and> n \<le> 102 then n - 87
         else if 65 \<le> n \<and> n \<le> 70 then n - 55
         else 99)"

definition isRadixDigit :: "nat \<Rightarrow> char \<Rightarrow> bool" where
  "isRadixDigit radix c = (digitValue c < radix)"

definition radixValue :: "nat \<Rightarrow> string \<Rightarrow> int" where
  "radixValue radix ds = foldl (\<lambda>acc d. acc * int radix + int (digitValue d)) 0 ds"

text \<open>
  The numbers that \<open>parseInt\<close> returns, \<open>NaN\<close> apart: the doubles that are integers, and
  the two infinities. (\<open>-0\<close> is \<open>Num 0\<close>: the two zeros are equal under \<open>===\<close>.)
\<close>

datatype number = Num int | PosInf | NegInf

text \<open>The number of binary digits of \<open>n\<close>.\<close>

function bitLength :: "int \<Rightarrow> nat" where
  "bitLength n = (if n \<le> 0 then 0 else Suc (bitLength (n div 2)))"
  by pat_completeness auto
termination
  by (relation "measure nat") auto

declare bitLength.simps [simp del]

text \<open>
  The double nearest to the integer \<open>n \<ge> 0\<close>, ties going to the even significand: \<open>n\<close>
  itself below \<open>2^53\<close>; from there on the 53 leading binary digits \<open>q\<close> of \<open>n\<close>, rounded
  by the digits \<open>r\<close> cut off. \<open>None\<close> when the result is beyond the largest double.
\<close>

definition roundToDouble :: "int \<Rightarrow> int option" where
  "roundToDouble n =
     (if n < 2 ^ 53 then Some n
      else (let e = bitLength n - 53;
                q = n div 2 ^ e;
                r = n mod 2 ^ e;
                half = 2 ^ (e - 1);
                q' = (if half < r \<or> (r = half \<and> odd q) then q + 1 else q);
                v = q' * 2 ^ e
            in if v < 2 ^ 1024 then Some v else None))"

text \<open>The number for a sign and a magnitude.\<close>

definition toNumber :: "int \<Rightarrow> int \<Rightarrow> number" where
  "toNumber sign m =
     (case roundToDouble m of
        None \<Rightarrow> (if sign < 0 then NegInf else PosInf)
      | Some v \<Rightarrow> Num (sign * v))"

text \<open>\<open>parseInt(s)\<close> with no radix argument: leading white space is dropped, then a sign,
  then a \<open>0x\<close> or \<open>0X\<close> prefix selects radix 16; the longest run of digits is read, and
  \<open>None\<close> stands for \<open>NaN\<close> when that run is empty. The value read is rounded to a double.\<close>

definition parseInt :: "string \<Rightarrow> number option" where
  "parseInt s =
     (let s1 = dropWhile isWhiteSpace s;
          sign = (if startsWith s1 ''-'' then - 1 else (1::int));
          s2 = (if startsWith s1 ''-'' \<or> startsWith s1 ''+'' then drop 1 s1 else s1);
          hex = (startsWith s2 ''0x'' \<or> startsWith s2 ''0X'');
          radix = (if hex then 16 else 10);
          s3 = (if hex then drop 2 s2 else s2);
          z = takeWhile (isRadixDigit radix) s3
      in if z = [] then None else Some (toNumber sign (radixValue radix z)))"

section \<open>Process discovery\<close>

text \<open>
  The parsing half of \<open>getRunningAntigravityProcesses\<close>: the branch for \<open>win32\<close>, which
  reads the CSV that the PowerShell query prints, and the branch for every other
  platform, which reads the listing of \<open>ps -A -o pid,comm,args\<close>. \<open>OtherPlatform\<close> stands
  for any value of \<open>process.platform\<close> other than \<open>win32\<close> and \<open>darwin\<close>.
\<close>

datatype platform = Win32 | Darwin | OtherPlatform

record ProcessInfo =
  pid :: number
  name :: string
  cmd :: string

subsection \<open>The structured (CSV) rows\<close>

text \<open>The field separator \<open>","\<close> of a row.\<close>

definition csvSep :: string where
  "csvSep = [dq, CHR '','', dq]"

text \<open>The first place where the separator occurs: the text before it and the text
  after it.\<close>

fun findSep :: "string \<Rightarrow> string \<Rightarrow> (string \<times> string) option" where
  "findSep acc [] = None"
| "findSep acc (c # cs) =
     (if startsWith (c # cs) csvSep then Some (acc, drop 3 (c # cs))
      else findSep (acc @ [c]) cs)"

text \<open>
  \<open>line.match(/^"(\d+)","(.*?)","(.*?)"$/)\<close>, returning the three groups. The digits are
  the whole run after the opening quote; the row has to end in a quote; the second
  group is lazy, so it ends at the first separator that leaves a closing quote behind
  it, and the third group is everything up to that closing quote. Neither group can
  hold a line terminator.
\<close>

definition matchCsvRow :: "string \<Rightarrow> (string \<times> string \<times> string) option" where
  "matchCsvRow line =
     (case line of
        [] \<Rightarrow> None
      | q # rest \<Rightarrow>
          (let ds = takeWhile isDigit rest;
               r1 = dropWhile isDigit rest;
               text = drop 3 r1
           in if q = dq \<and> ds \<noteq> [] \<and> startsWith r1 csvSep \<and> text \<noteq> [] \<and> last text = dq
                 \<and> \<not> list_ex isLineTerminator (butlast text)
              then (case findSep [] (butlast text) of
                      None \<Rightarrow> None
                    | Some (nm, cl) \<Rightarrow> Some (ds, nm, cl))
              else None))"

text \<open>The body of the loop over the CSV lines: what one line adds to the list.\<close>

definition csvRow :: "string \<Rightarrow> ProcessInfo option" where
  "csvRow line =
     (if line = [] then None
      else (case matchCsvRow line of
              None \<Rightarrow> None
            | Some (ds, nm, cmdLine) \<Rightarrow>
                (case parseInt ds of
                   None \<Rightarrow> None
                 | Some p \<Rightarrow>
                     Some \<lparr>pid = p, name = nm, cmd = (if cmdLine = [] then nm else cmdLine)\<rparr>)))"

fun csvLoop :: "string list \<Rightarrow> ProcessInfo list \<Rightarrow> ProcessInfo list" where
  "csvLoop [] processList = processList"
| "csvLoop (line # rest) processList =
     (case csvRow line of
        None \<Rightarrow> csvLoop rest processList
      | Some p \<Rightarrow> csvLoop rest (processList @ [p]))"

text \<open>The loop starts at index 1: the header line is never looked at.\<close>

definition parseCsv :: "string \<Rightarrow> ProcessInfo list" where
  "parseCsv output = csvLoop (drop 1 (splitLines [] (trim output))) []"

subsection \<open>The \<open>ps\<close> rows\<close>

definition psRow :: "string \<Rightarrow> ProcessInfo option" where
  "psRow line =
     (let parts = splitWs [] (trim line)
      in if length parts < 2 then None
         else (case parseInt (parts ! 0) of
                 None \<Rightarrow> None
               | Some p \<Rightarrow>
                   (let rest = joinSp (drop 1 parts)
                    in if includesStr (toLowerCase rest) ''antigravity''
                       then Some \<lparr>pid = p, name = parts ! 1, cmd = rest\<rparr>
                       else None)))"

fun psLoop :: "string list \<Rightarrow> ProcessInfo list \<Rightarrow> ProcessInfo list" where
  "psLoop [] processList = processList"
| "psLoop (line # rest) processList =
     (case psRow line of
        None \<Rightarrow> psLoop rest processList
      | Some p \<Rightarrow> psLoop rest (processList @ [p]))"

text \<open>\<open>output.split('\n')\<close>.\<close>

fun splitNewline :: "string \<Rightarrow> string \<Rightarrow> string list" where
  "splitNewline cur [] = [cur]"
| "splitNewline cur (c # cs) =
     (if c = LF then cur # splitNewline [] cs else splitNewline (cur @ [c]) cs)"

definition parsePs :: "string \<Rightarrow> ProcessInfo list" where
  "parsePs output = psLoop (splitNewline [] output) []"

text \<open>The list the discovery step builds from the raw output, before it is filtered.\<close>

definition listCandidateProcesses :: "platform \<Rightarrow> string \<Rightarrow> ProcessInfo list" where
  "listCandidateProcesses pf output = (if pf = Win32 then parseCsv output else parsePs output)"

section \<open>Process filter\<close>

text \<open>The predicate of the final \<open>processList.filter\<close> of
  \<open>getRunningAntigravityProcesses\<close>, and the filter itself.\<close>

definition isTarget :: "platform \<Rightarrow> int \<Rightarrow> ProcessInfo \<Rightarrow> bool" where
  "isTarget pf currentPid p =
     (if pid p = Num currentPid then False
      else (let cmdLower = toLowerCase (cmd p)
            in if includesStr cmdLower ''antigravity manager'' then False
               else if pf = Win32
                 then includesStr (cmd p) ''Antigravity.exe''
                      \<or> (includesStr cmdLower ''antigravity'' \<and> \<not> includesStr cmdLower ''manager'')
               else if pf = Darwin
                 then includesStr (cmd p) ''Antigravity.app''
                      \<or> (includesStr (cmd p) ''Antigravity'' \<and> \<not> includesStr cmdLower ''manager'')
               else includesStr (cmd p) ''Antigravity'' \<or> includesStr cmdLower ''antigravity''))"

definition classify :: "platform \<Rightarrow> int \<Rightarrow> ProcessInfo list \<Rightarrow> ProcessInfo list" where
  "classify pf currentPid processList = filter (isTarget pf currentPid) processList"

section \<open>Path translation\<close>

text \<open>
  \<open>execPath.replace(/^\/mnt\/([a-z])\//, (_, drive) => `${drive.toUpperCase()}:\\`)\<close>
  followed by \<open>.replace(/\//g, '\\')\<close>.
\<close>

definition isAsciiLower :: "char \<Rightarrow> bool" where
  "isAsciiLower c = (let n = code c in 97 \<le> n \<and> n \<le> 122)"

definition replaceDrive :: "string \<Rightarrow> string" where
  "replaceDrive p =
     (if startsWith p ''/mnt/'' \<and> 7 \<le> length p \<and> isAsciiLower (p ! 5) \<and> p ! 6 = CHR ''/''
      then upperChar (p ! 5) # CHR '':'' # bslash # drop 7 p
      else p)"

definition toWinPath :: "string \<Rightarrow> string" where
  "toWinPath execPath = slashesToBackslashes (replaceDrive execPath)"

section \<open>The operating system\<close>

text \<open>
  Everything the controller does to the outside world is an event appended to a trace,
  and everything the outside world answers comes from a record of answers \<open>os\<close>, each a
  function of the world at the moment of the call (its clock and the whole trace so
  far). A theorem that holds for every \<open>os\<close> holds for every behaviour of the host.

  The clock counts milliseconds and never runs backwards. \<open>latency\<close> is the time a call
  takes beyond what it asked for. The resolved installation path and the
  compatibility-layer flag are supplied by collaborators outside this module and are
  fields of \<open>os\<close>; the logger never fails.
\<close>

datatype exn = OsError string | JsError string

datatype level = Info | Warn | Err | Debug

text \<open>The values a log call interpolates into its message or passes along with it.\<close>

datatype logArg = ArgBool bool | ArgNat nat | ArgPidNames "(number \<times> string) list" | ArgExn exn

datatype event =
    Log level string "logArg list"
  | ExecSync string
  | ExecAsync string
  | ExecDetached string
  | Kill number
  | Sleep nat

record world =
  clock :: nat
  trace :: "event list"

record os =
  platform :: platform
  currentPid :: int
  wsl :: bool
  executablePath :: string
  execSyncResult :: "world \<Rightarrow> string \<Rightarrow> exn + string"
  execAsyncResult :: "world \<Rightarrow> string \<Rightarrow> exn + unit"
  execDetachedResult :: "world \<Rightarrow> string \<Rightarrow> exn + unit"
  killResult :: "world \<Rightarrow> number \<Rightarrow> exn + unit"
  latency :: "world \<Rightarrow> nat"

type_synonym 'a io = "world \<Rightarrow> (exn + 'a) \<times> world"

definition retIO :: "'a \<Rightarrow> 'a io" where
  "retIO x w = (Inr x, w)"

definition throwIO :: "exn \<Rightarrow> 'a io" where
  "throwIO e w = (Inl e, w)"

definition bindIO :: "'a io \<Rightarrow> ('a \<Rightarrow> 'b io) \<Rightarrow> 'b io" where
  "bindIO m f w = (case m w of (Inl e, w') \<Rightarrow> (Inl e, w') | (Inr x, w') \<Rightarrow> f x w')"

definition thenIO :: "'a io \<Rightarrow> 'b io \<Rightarrow> 'b io" where
  "thenIO m n = bindIO m (\<lambda>_. n)"

definition tryCatch :: "'a io \<Rightarrow> (exn \<Rightarrow> 'a io) \<Rightarrow> 'a io" where
  "tryCatch m h w = (case m w of (Inl e, w') \<Rightarrow> h e w' | (Inr x, w') \<Rightarrow> (Inr x, w'))"

definition emit :: "event \<Rightarrow> world \<Rightarrow> world" where
  "emit ev w = w\<lparr>trace := trace w @ [ev]\<rparr>"

definition elapse :: "os \<Rightarrow> world \<Rightarrow> world" where
  "elapse os w = w\<lparr>clock := clock w + latency os w\<rparr>"

text \<open>\<open>logger.info\<close>, \<open>logger.warn\<close>, \<open>logger.error\<close>, \<open>logger.debug\<close>.\<close>

definition logger :: "level \<Rightarrow> string \<Rightarrow> logArg list \<Rightarrow> unit io" where
  "logger lvl msg args w = (Inr (), emit (Log lvl msg args) w)"

text \<open>\<open>execSync(cmd, ...)\<close>: the output of the command, or the error it throws.\<close>

definition execSync :: "os \<Rightarrow> string \<Rightarrow> string io" where
  "execSync os command w = (execSyncResult os w command, elapse os (emit (ExecSync command) w))"



text \<open>\<open>process.kill(pid, 'SIGKILL')\<close>.\<close>

definition processKill :: "os \<Rightarrow> number \<Rightarrow> unit io" where
  "processKill os p w = (killResult os w p, emit (Kill p) w)"

text \<open>\<open>await new Promise((resolve) => setTimeout(resolve, ms))\<close>.\<close>

definition sleep :: "os \<Rightarrow> nat \<Rightarrow> unit io" where
  "sleep os ms w = (Inr (), (emit (Sleep ms) w)\<lparr>clock := clock w + ms + latency os w\<rparr>)"

text \<open>\<open>Date.now()\<close>.\<close>

definition dateNow :: "os \<Rightarrow> int io" where
  "dateNow os w = (Inr (int (clock w)), elapse os w)"

section \<open>Discovery of the running processes\<close>

definition sq :: char where
  "sq = CHR 0x27"

definition psCommand :: "string \<Rightarrow> string" where
  "psCommand cmdlet =
     ''powershell -NoProfile -Command '' @ [dq] @ cmdlet @ '' Win32_Process -Filter ''
       @ [bslash, dq] @ ''Name like '' @ [sq] @ ''Antigravity%'' @ [sq] @ [bslash, dq]
       @ '' | Select-Object ProcessId, Name, CommandLine | ConvertTo-Csv -NoTypeInformation''
       @ [dq]"

definition getRawOutput :: "os \<Rightarrow> string io" where
  "getRawOutput os =
     (if platform os = Win32
      then tryCatch (execSync os (psCommand ''Get-CimInstance''))
             (\<lambda>e. tryCatch (execSync os (psCommand ''Get-WmiObject''))
                    (\<lambda>innerE. throwIO e))
      else execSync os ''ps -A -o pid,comm,args'')"

definition getRunningAntigravityProcesses :: "os \<Rightarrow> ProcessInfo list io" where
  "getRunningAntigravityProcesses os =
     tryCatch
       (bindIO (getRawOutput os) (\<lambda>output.
          retIO (classify (platform os) (currentPid os)
                   (listCandidateProcesses (platform os) output))))
       (\<lambda>e. thenIO (logger Err ''Failed to list processes'' [ArgExn e]) (retIO []))"

text \<open>\<open>isProcessRunning\<close> logs the outcome of every check at debug level, and the
  processes found when there are any.\<close>

definition checkMessage :: string where
  "checkMessage = ''isProcessRunning check: ${isRunning} (Found ${runningProcesses.length} processes)''"

definition isProcessRunning :: "os \<Rightarrow> bool io" where
  "isProcessRunning os =
     tryCatch
       (bindIO (getRunningAntigravityProcesses os) (\<lambda>runningProcesses.
          (let isRunning = (length runningProcesses > 0)
           in thenIO (logger Debug checkMessage [ArgBool isRunning, ArgNat (length runningProcesses)])
                (thenIO (if isRunning
                         then logger Debug ''Running processes: ${JSON.stringify(...)}''
                                [ArgPidNames (map (\<lambda>p. (pid p, name p)) runningProcesses)]
                         else retIO ())
                   (retIO isRunning)))))
       (\<lambda>error. thenIO (logger Err ''Error checking process status:'' [ArgExn error]) (retIO False))"

section \<open>Closing\<close>

text \<open>Stage 1 of \<open>closeAntigravity\<close>: the platform's request to quit. Its failure is
  caught on the spot.\<close>

definition gracefulShutdown :: "os \<Rightarrow> unit io" where
  "gracefulShutdown os =
     (if platform os = Darwin
      then tryCatch
             (thenIO (logger Info ''Attempting graceful exit via AppleScript...'' [])
                (thenIO (execSync os (''osascript -e '' @ [sq] @ ''tell application '' @ [dq]
                                      @ ''Antigravity'' @ [dq] @ '' to quit'' @ [sq]))
                   (sleep os 2000)))
             (\<lambda>_. logger Warn ''AppleScript exit failed, proceeding to next stage'' [])
      else if platform os = Win32
      then tryCatch
             (thenIO (logger Info ''Attempting graceful exit via taskkill...'' [])
                (thenIO (execSync os (''taskkill /IM '' @ [dq] @ ''Antigravity.exe'' @ [dq] @ '' /T''))
                   (sleep os 1000)))
             (\<lambda>_. retIO ())
      else retIO ())"

fun killAll :: "os \<Rightarrow> ProcessInfo list \<Rightarrow> unit io" where
  "killAll os [] = retIO ()"
| "killAll os (p # ps) =
     thenIO (tryCatch (processKill os (pid p)) (\<lambda>_. retIO ())) (killAll os ps)"

definition closeAntigravity :: "os \<Rightarrow> unit io" where
  "closeAntigravity os =
     thenIO (logger Info ''Closing Antigravity...'' [])
       (tryCatch
          (thenIO (gracefulShutdown os)
             (bindIO (getRunningAntigravityProcesses os) (\<lambda>targetProcessList.
                if length targetProcessList = 0
                then logger Info ''No Antigravity processes found running.'' []
                else thenIO (logger Info ''Found ${targetProcessList.length} remaining Antigravity processes. Killing...''
                               [ArgNat (length targetProcessList)])
                       (killAll os targetProcessList))))
          (\<lambda>error.
             thenIO (logger Err ''Error closing Antigravity'' [ArgExn error])
               (tryCatch
                  (thenIO (if platform os = Win32
                           then execSync os (''taskkill /F /IM '' @ [dq] @ ''Antigravity.exe'' @ [dq] @ '' /T'')
                           else execSync os ''pkill -9 -f Antigravity'')
                     (retIO ()))
                  (\<lambda>_. retIO ()))))"

section \<open>Waiting for the exit\<close>

definition exitTimeout :: exn where
  "exitTimeout = JsError ''Process did not exit within timeout''"

text \<open>The \<open>while\<close> loop of \<open>_waitForProcessExit\<close>. Every round that goes on sleeps 500 ms,
  so the clock passes any finite deadline.\<close>

function waitLoop :: "os \<Rightarrow> int \<Rightarrow> int \<Rightarrow> unit io" where
  "waitLoop os timeoutMs startTime w =
     (case dateNow os w of
        (Inl e, w1) \<Rightarrow> (Inl e, w1)
      | (Inr now, w1) \<Rightarrow>
          if now - startTime < timeoutMs
          then (case isProcessRunning os w1 of
                  (Inl e, w2) \<Rightarrow> (Inl e, w2)
                | (Inr running, w2) \<Rightarrow>
                    if \<not> running then (Inr (), w2)
                    else (case sleep os 500 w2 of
                            (Inl e, w3) \<Rightarrow> (Inl e, w3)
                          | (Inr u, w3) \<Rightarrow> waitLoop os timeoutMs startTime w3))
          else (Inl exitTimeout, w1))"
  by pat_completeness auto
termination
proof (relation "measure (\<lambda>(os, timeoutMs, startTime, w). nat (startTime + timeoutMs - int (clock w)))")
  show "wf (measure (\<lambda>(os, timeoutMs, startTime, w). nat (startTime + timeoutMs - int (clock w))))"
    by simp
next
  fix os :: os and timeoutMs startTime :: int and w w1 w2 w3 :: world
    and x :: "exn + int" and now :: int and y :: "exn + bool" and running :: bool
    and z :: "exn + unit" and u :: unit
  assume d: "(x, w1) = dateNow os w" "x = Inr now" and lt: "now - startTime < timeoutMs"
    and r: "(y, w2) = isProcessRunning os w1" and s: "(z, w3) = sleep os 500 w2"
  have 1: "now = int (clock w)" "clock w \<le> clock w1"
    using d by (auto simp: dateNow_def elapse_def)
  have 2: "clock w1 \<le> clock (snd (isProcessRunning os w1))"
    by (auto simp: isProcessRunning_def getRunningAntigravityProcesses_def getRawOutput_def
        tryCatch_def bindIO_def thenIO_def retIO_def throwIO_def logger_def execSync_def
        emit_def elapse_def Let_def split: sum.splits prod.splits if_splits)
  have 3: "clock w2 + 500 \<le> clock w3"
    using s by (auto simp: sleep_def elapse_def emit_def)
  have "clock w1 \<le> clock w2" using 2 r by (metis snd_conv)
  then show "((os, timeoutMs, startTime, w3), (os, timeoutMs, startTime, w))
      \<in> measure (\<lambda>(os, timeoutMs, startTime, w). nat (startTime + timeoutMs - int (clock w)))"
    using 1 3 lt by simp
qed

declare waitLoop.simps [simp del]

definition waitForProcessExit :: "os \<Rightarrow> int \<Rightarrow> unit io" where
  "waitForProcessExit os timeoutMs = bindIO (dateNow os) (\<lambda>startTime. waitLoop os timeoutMs startTime)"

section \<open>Starting\<close>





section \<open>Views of the trace\<close>

text \<open>The launch invocations and the per-pid kill calls among the events.\<close>

fun isLaunch :: "event \<Rightarrow> bool" where
  "isLaunch (ExecAsync c) = True"
| "isLaunch (ExecDetached c) = True"
| "isLaunch ev = False"

fun isKill :: "event \<Rightarrow> bool" where
  "isKill (Kill p) = True"
| "isKill ev = False"

text \<open>What the waiting loop leaves in the trace: the outcome of each poll, which
  \<open>isProcessRunning\<close> logs, and each pause.\<close>

datatype loopStep = Poll bool | Pause nat

fun loopView :: "event \<Rightarrow> loopStep option" where
  "loopView (Log lvl msg args) =
     (case args of
        [ArgBool b, ArgNat n] \<Rightarrow> if lvl = Debug \<and> msg = checkMessage then Some (Poll b) else None
      | _ \<Rightarrow> None)"
| "loopView (Sleep ms) = Some (Pause ms)"
| "loopView ev = None"

definition loopViews :: "event list \<Rightarrow> loopStep list" where
  "loopViews evs = List.map_filter loopView evs"







section \<open>Example hosts\<close>

text \<open>Concrete hosts and outputs on which the theorems below are exercised.\<close>

definition world0 :: world where
  "world0 = \<lparr>clock = 0, trace = []\<rparr>"

definition psRunning :: string where
  "psRunning = ''  PID COMMAND ARGS'' @ [LF] @ '' 4242 antigravity /opt/Antigravity/antigravity'' @ [LF]"


definition csvRunning :: string where
  "csvRunning = [dq] @ ''ProcessId'' @ csvSep @ ''Name'' @ csvSep @ ''CommandLine'' @ [dq, CR, LF]
      @ [dq] @ ''4242'' @ csvSep @ ''Antigravity.exe'' @ csvSep @ ''C:'' @ [bslash] @ ''Antigravity.exe''
      @ [dq, CR, LF]"

definition demoOs :: "platform \<Rightarrow> (world \<Rightarrow> string \<Rightarrow> exn + string) \<Rightarrow> (world \<Rightarrow> string \<Rightarrow> exn + unit) \<Rightarrow> os" where
  "demoOs pf sync launch =
     \<lparr>platform = pf, currentPid = 100, wsl = False,
      executablePath = ''/opt/Antigravity/antigravity'',
      execSyncResult = sync, execAsyncResult = launch, execDetachedResult = launch,
      killResult = (\<lambda>w p. Inr ()), latency = (\<lambda>w. 0)\<rparr>"

text \<open>A host on which the application is seen running until the clock reaches one second.\<close>

definition exitingOs :: os where
  "exitingOs = demoOs OtherPlatform (\<lambda>w c. if clock w < 1000 then Inr psRunning else Inr [])
                 (\<lambda>w c. Inr ())"

text \<open>A host on which no process is listed.\<close>

definition idleOs :: "platform \<Rightarrow> os" where
  "idleOs pf = demoOs pf (\<lambda>w c. Inr []) (\<lambda>w c. Inr ())"


text \<open>A host whose process listing fails.\<close>

definition brokenOs :: os where
  "brokenOs = demoOs OtherPlatform (\<lambda>w c. Inl (OsError ''ps: command not found'')) (\<lambda>w c. Inr ())"

text \<open>A Windows host whose two queries answer as given.\<close>

definition winOs :: "(exn + string) \<Rightarrow> (exn + string) \<Rightarrow> os" where
  "winOs cim wmi =
     demoOs Win32 (\<lambda>w c. if c = psCommand ''Get-CimInstance'' then cim else wmi) (\<lambda>w c. Inr ())"

section \<open>Strings and rows\<close>


lemma startsWith_iff: "startsWith s p \<longleftrightarrow> (\<exists>t. s = p @ t)"
  by (induction s p rule: startsWith.induct) auto






text \<open>Beyond \<open>2^53\<close> the value read is the nearest double.\<close>

lemma parseInt_rounds:
  "parseInt ''9007199254740993'' = Some (Num 9007199254740992)"
  "parseInt ''18446744073709551617'' = Some (Num 18446744073709551616)"
  "parseInt ''-12ab'' = Some (Num (- 12))"
  "parseInt ''0x1F'' = Some (Num 31)"
  "parseInt ''abc'' = None"
  by code_simp+































text \<open>The row of the specification's example names no target application, so the
  pre-filter drops it; the example holds with the application's own name in it.\<close>

lemma parsePs_placeholder_line: "parsePs ''5678 App /usr/local/bin/App --serve'' = []"
  by code_simp

lemma upperChar_ascii:
  assumes "isAsciiLower d"
  shows "code (upperChar d) + 32 = code d"
proof (cases d)
  case (Char b0 b1 b2 b3 b4 b5 b6 b7)
  then show ?thesis using assms
    by (cases b0; cases b1; cases b2; cases b3; cases b4; cases b5; cases b6; cases b7)
       (simp_all add: isAsciiLower_def upperChar_def isLower_def code_def Let_def)
qed

lemma mnt_form:
  assumes "startsWith p ''/mnt/''" "7 \<le> length p" "p ! 6 = CHR ''/''"
  shows "p = ''/mnt/'' @ [p ! 5] @ ''/'' @ drop 7 p"
proof -
  obtain t where t: "p = ''/mnt/'' @ t" using assms(1) by (auto simp: startsWith_iff)
  then have "2 \<le> length t" using assms(2) by simp
  then obtain a b t' where t': "t = a # b # t'"
    by (cases t; cases "tl t") auto
  then show ?thesis using t assms(3) by simp
qed

section \<open>Traces of the operations\<close>

lemma getRawOutput_trace:
  "getRawOutput os w = (r, w') \<Longrightarrow>
     \<exists>evs. trace w' = trace w @ evs \<and> (\<forall>ev\<in>set evs. \<exists>c. ev = ExecSync c) \<and> clock w \<le> clock w'"
  by (auto simp: getRawOutput_def tryCatch_def throwIO_def execSync_def emit_def elapse_def
      split: if_splits sum.splits prod.splits)

lemma getRunning_cases:
  "(getRawOutput os w = (Inr output, w0) \<longrightarrow>
      getRunningAntigravityProcesses os w =
        (Inr (classify (platform os) (currentPid os) (listCandidateProcesses (platform os) output)), w0))
   \<and> (getRawOutput os w = (Inl e, w0) \<longrightarrow>
      getRunningAntigravityProcesses os w =
        (Inr [], emit (Log Err ''Failed to list processes'' [ArgExn e]) w0))"
  by (simp add: getRunningAntigravityProcesses_def tryCatch_def bindIO_def thenIO_def retIO_def logger_def)

lemma getRunning_total:
  "\<exists>ps w1. getRunningAntigravityProcesses os w = (Inr ps, w1)"
proof (cases "getRawOutput os w")
  case (Pair r w0)
  then show ?thesis using getRunning_cases[of os w _ w0] by (cases r) auto
qed

lemma getRunning_trace:
  assumes "getRunningAntigravityProcesses os w = (r, w')"
  shows "\<exists>evs. trace w' = trace w @ evs \<and> loopViews evs = [] \<and> filter isLaunch evs = []
            \<and> filter isKill evs = [] \<and> clock w \<le> clock w'"
proof (cases "getRawOutput os w")
  case (Pair r0 w0)
  then obtain evs where evs: "trace w0 = trace w @ evs" "\<forall>ev\<in>set evs. \<exists>c. ev = ExecSync c"
    "clock w \<le> clock w0"
    using getRawOutput_trace by blast
  have q: "loopViews evs = []" "filter isLaunch evs = []" "filter isKill evs = []"
    using evs(2) by (auto simp: loopViews_def List.map_filter_def filter_empty_conv)
  show ?thesis
  proof (cases r0)
    case (Inl e)
    then have "w' = emit (Log Err ''Failed to list processes'' [ArgExn e]) w0"
      using getRunning_cases[of os w _ w0 e] Pair assms by simp
    then have "trace w' = trace w @ (evs @ [Log Err ''Failed to list processes'' [ArgExn e]])"
      "clock w \<le> clock w'"
      using evs by (simp_all add: emit_def)
    moreover have "loopViews (evs @ [Log Err ''Failed to list processes'' [ArgExn e]]) = []"
      "filter isLaunch (evs @ [Log Err ''Failed to list processes'' [ArgExn e]]) = []"
      "filter isKill (evs @ [Log Err ''Failed to list processes'' [ArgExn e]]) = []"
      using q by (simp_all add: loopViews_def List.map_filter_def)
    ultimately show ?thesis by blast
  next
    case (Inr out)
    then have "w' = w0" using getRunning_cases[of os w out w0] Pair assms by simp
    then show ?thesis using evs q by blast
  qed
qed

lemma isProcessRunning_eq:
  assumes "getRunningAntigravityProcesses os w = (Inr ps, w1)"
  shows "isProcessRunning os w =
     (Inr (ps \<noteq> []),
      if ps \<noteq> [] then emit (Log Debug ''Running processes: ${JSON.stringify(...)}''
                               [ArgPidNames (map (\<lambda>p. (pid p, name p)) ps)])
                        (emit (Log Debug checkMessage [ArgBool True, ArgNat (length ps)]) w1)
      else emit (Log Debug checkMessage [ArgBool False, ArgNat 0]) w1)"
  using assms
  by (simp add: isProcessRunning_def tryCatch_def bindIO_def thenIO_def retIO_def logger_def Let_def)





lemma gracefulShutdown_trace:
  "gracefulShutdown os w = (r, w') \<Longrightarrow>
     r = Inr () \<and> (\<exists>evs. trace w' = trace w @ evs \<and> filter isKill evs = [])"
  by (auto simp: gracefulShutdown_def tryCatch_def thenIO_def bindIO_def retIO_def logger_def
      execSync_def sleep_def emit_def elapse_def split: if_splits sum.splits prod.splits)

lemma psCommand_neq: "psCommand ''Get-WmiObject'' \<noteq> psCommand ''Get-CimInstance''"
  by (simp add: psCommand_def)





section \<open>The claims\<close>

text \<open>
  Claim C1. \<open>isProcessRunning\<close> returns true exactly when classifying the freshly
  discovered process list against the caller's pid gives a non-empty list, and it
  never raises: when the raw query succeeds with output \<open>out\<close>, discovery returns the
  classified candidates of \<open>out\<close> and \<open>isProcessRunning\<close> returns whether that list is
  non-empty; when the raw query fails with \<open>e\<close>, discovery logs the failure, returns
  the empty list, and \<open>isProcessRunning\<close> returns false; in every world
  \<open>isProcessRunning\<close> returns a boolean.
\<close>

theorem isProcessRunning_iff:
  "(getRawOutput os w = (Inr out, w1) \<longrightarrow>
      getRunningAntigravityProcesses os w =
        (Inr (classify (platform os) (currentPid os) (listCandidateProcesses (platform os) out)), w1)
      \<and> (\<exists>w2. isProcessRunning os w =
            (Inr (classify (platform os) (currentPid os) (listCandidateProcesses (platform os) out) \<noteq> []), w2)))
   \<and> (getRawOutput os w = (Inl e, w1) \<longrightarrow>
      getRunningAntigravityProcesses os w =
        (Inr [], emit (Log Err ''Failed to list processes'' [ArgExn e]) w1)
      \<and> (\<exists>w2. isProcessRunning os w = (Inr False, w2)))
   \<and> (\<exists>b w2. isProcessRunning os w = (Inr b, w2))"
proof (intro conjI impI)
  assume a: "getRawOutput os w = (Inr out, w1)"
  then show g: "getRunningAntigravityProcesses os w =
        (Inr (classify (platform os) (currentPid os) (listCandidateProcesses (platform os) out)), w1)"
    using getRunning_cases[of os w out w1] by simp
  show "\<exists>w2. isProcessRunning os w =
            (Inr (classify (platform os) (currentPid os) (listCandidateProcesses (platform os) out) \<noteq> []), w2)"
    using isProcessRunning_eq[OF g] by blast
next
  assume a: "getRawOutput os w = (Inl e, w1)"
  then show g: "getRunningAntigravityProcesses os w =
        (Inr [], emit (Log Err ''Failed to list processes'' [ArgExn e]) w1)"
    using getRunning_cases[of os w _ w1 e] by simp
  show "\<exists>w2. isProcessRunning os w = (Inr False, w2)"
    using isProcessRunning_eq[OF g] by simp
next
  obtain ps w1 where "getRunningAntigravityProcesses os w = (Inr ps, w1)"
    using getRunning_total by blast
  then show "\<exists>b w2. isProcessRunning os w = (Inr b, w2)"
    using isProcessRunning_eq by blast
qed

text \<open>On a host that lists the application the answer is true; on a host whose listing
  fails the failure is logged and the answer is false.\<close>

theorem isProcessRunning_iff_witness:
  "getRawOutput exitingOs world0
     = (Inr psRunning, \<lparr>clock = 0, trace = [ExecSync ''ps -A -o pid,comm,args'']\<rparr>)
   \<and> classify OtherPlatform 100 (listCandidateProcesses OtherPlatform psRunning)
     = [\<lparr>pid = Num 4242, name = ''antigravity'', cmd = ''antigravity /opt/Antigravity/antigravity''\<rparr>]
   \<and> fst (isProcessRunning exitingOs world0) = Inr True
   \<and> getRawOutput brokenOs world0
     = (Inl (OsError ''ps: command not found''),
        \<lparr>clock = 0, trace = [ExecSync ''ps -A -o pid,comm,args'']\<rparr>)
   \<and> getRunningAntigravityProcesses brokenOs world0
     = (Inr [], \<lparr>clock = 0, trace = [ExecSync ''ps -A -o pid,comm,args'',
                    Log Err ''Failed to list processes'' [ArgExn (OsError ''ps: command not found'')]]\<rparr>)
   \<and> fst (isProcessRunning brokenOs world0) = Inr False"
proof -
  let ?w1 = "\<lparr>clock = 0, trace = [ExecSync ''ps -A -o pid,comm,args'']\<rparr>"
  have a: "getRawOutput exitingOs world0 = (Inr psRunning, ?w1)"
    by (simp add: getRawOutput_def exitingOs_def demoOs_def execSync_def emit_def elapse_def world0_def)
  have b: "getRawOutput brokenOs world0 = (Inl (OsError ''ps: command not found''), ?w1)"
    by (simp add: getRawOutput_def brokenOs_def demoOs_def execSync_def emit_def elapse_def world0_def)
  have c: "classify OtherPlatform 100 (listCandidateProcesses OtherPlatform psRunning)
     = [\<lparr>pid = Num 4242, name = ''antigravity'', cmd = ''antigravity /opt/Antigravity/antigravity''\<rparr>]"
    by code_simp
  have p: "platform exitingOs = OtherPlatform" "currentPid exitingOs = 100"
    by (simp_all add: exitingOs_def demoOs_def)
  have 1: "fst (isProcessRunning exitingOs world0) = Inr True"
    using isProcessRunning_iff[of exitingOs world0 psRunning ?w1] a c p by auto
  have 2: "getRunningAntigravityProcesses brokenOs world0
     = (Inr [], emit (Log Err ''Failed to list processes'' [ArgExn (OsError ''ps: command not found'')]) ?w1)
     \<and> fst (isProcessRunning brokenOs world0) = Inr False"
    using isProcessRunning_iff[of brokenOs world0 _ ?w1 "OsError ''ps: command not found''"] b by auto
  show ?thesis using a b c 1 2 by (simp add: emit_def)
qed



text \<open>
  Claim C3. If, after the graceful stage, discovery and classification give the empty
  list, \<open>closeAntigravity\<close> returns normally, the trace gains no per-pid kill call, and
  \<open>isProcessRunning\<close> in the world of that discovery returns false.
\<close>

theorem closeAntigravity_nothing_found:
  assumes "gracefulShutdown os (emit (Log Info ''Closing Antigravity...'' []) w) = (g, w1)"
    and "getRunningAntigravityProcesses os w1 = (Inr [], w2)"
  shows "closeAntigravity os w =
           (Inr (), emit (Log Info ''No Antigravity processes found running.'' []) w2)
       \<and> filter isKill (trace (emit (Log Info ''No Antigravity processes found running.'' []) w2))
           = filter isKill (trace w)
       \<and> (\<exists>w3. isProcessRunning os w1 = (Inr False, w3))"
proof (intro conjI)
  have g: "g = Inr ()" using gracefulShutdown_trace[OF assms(1)] by simp
  show "closeAntigravity os w =
           (Inr (), emit (Log Info ''No Antigravity processes found running.'' []) w2)"
    using assms g
    by (simp add: closeAntigravity_def thenIO_def bindIO_def tryCatch_def logger_def)
  obtain evs1 where e1: "trace w1 = trace (emit (Log Info ''Closing Antigravity...'' []) w) @ evs1"
    "filter isKill evs1 = []"
    using gracefulShutdown_trace[OF assms(1)] by blast
  obtain evs2 where e2: "trace w2 = trace w1 @ evs2" "filter isKill evs2 = []"
    using getRunning_trace[OF assms(2)] by blast
  show "filter isKill (trace (emit (Log Info ''No Antigravity processes found running.'' []) w2))
           = filter isKill (trace w)"
    using e1 e2 by (simp add: emit_def)
  show "\<exists>w3. isProcessRunning os w1 = (Inr False, w3)"
    using isProcessRunning_eq[OF assms(2)] by simp
qed

text \<open>A macOS host on which nothing is listed.\<close>

theorem closeAntigravity_nothing_found_witness:
  "fst (closeAntigravity (idleOs Darwin) world0) = Inr ()
   \<and> filter isKill (trace (snd (closeAntigravity (idleOs Darwin) world0))) = []
   \<and> fst (getRunningAntigravityProcesses (idleOs Darwin)
            (snd (gracefulShutdown (idleOs Darwin) (emit (Log Info ''Closing Antigravity...'' []) world0))))
       = Inr []"
proof -
  let ?w1 = "snd (gracefulShutdown (idleOs Darwin) (emit (Log Info ''Closing Antigravity...'' []) world0))"
  let ?w2 = "snd (getRunningAntigravityProcesses (idleOs Darwin) ?w1)"
  have a: "gracefulShutdown (idleOs Darwin) (emit (Log Info ''Closing Antigravity...'' []) world0)
      = (Inr (), ?w1)"
    using gracefulShutdown_trace[of "idleOs Darwin" "emit (Log Info ''Closing Antigravity...'' []) world0"]
    by (metis prod.collapse)
  have f: "fst (getRunningAntigravityProcesses (idleOs Darwin) ?w1) = Inr []"
    by code_simp
  then have b: "getRunningAntigravityProcesses (idleOs Darwin) ?w1 = (Inr [], ?w2)"
    by (metis prod.collapse)
  have t: "filter isKill (trace world0) = []" by (simp add: world0_def)
  show ?thesis
    using closeAntigravity_nothing_found[OF a b] f t by simp
qed






text \<open>
  Claim C6. On Windows, \<open>getRawOutput\<close> first runs the \<open>Get-CimInstance\<close> query; if it
  succeeds its output is returned and nothing else is run. Only if it fails is the
  \<open>Get-WmiObject\<close> query run; if that succeeds its output is returned, and if it fails
  too the error raised is the one of the first query.
\<close>

theorem getRawOutput_fallback:
  assumes "platform os = Win32"
    and "w1 = elapse os (emit (ExecSync (psCommand ''Get-CimInstance'')) w)"
    and "w2 = elapse os (emit (ExecSync (psCommand ''Get-WmiObject'')) w1)"
  shows "(execSyncResult os w (psCommand ''Get-CimInstance'') = Inr out
            \<longrightarrow> getRawOutput os w = (Inr out, w1))
       \<and> (execSyncResult os w (psCommand ''Get-CimInstance'') = Inl e
            \<and> execSyncResult os w1 (psCommand ''Get-WmiObject'') = Inr out
            \<longrightarrow> getRawOutput os w = (Inr out, w2))
       \<and> (execSyncResult os w (psCommand ''Get-CimInstance'') = Inl e
            \<and> execSyncResult os w1 (psCommand ''Get-WmiObject'') = Inl innerE
            \<longrightarrow> getRawOutput os w = (Inl e, w2))
       \<and> trace w1 = trace w @ [ExecSync (psCommand ''Get-CimInstance'')]
       \<and> trace w2 = trace w @ [ExecSync (psCommand ''Get-CimInstance''),
                                ExecSync (psCommand ''Get-WmiObject'')]"
  using assms
  by (simp add: getRawOutput_def tryCatch_def throwIO_def execSync_def emit_def elapse_def)

text \<open>The three cases, with two different errors.\<close>

theorem getRawOutput_fallback_witness:
  "getRawOutput (winOs (Inr csvRunning) (Inl (OsError ''wmi''))) world0
     = (Inr csvRunning, \<lparr>clock = 0, trace = [ExecSync (psCommand ''Get-CimInstance'')]\<rparr>)
   \<and> getRawOutput (winOs (Inl (OsError ''cim'')) (Inr csvRunning)) world0
     = (Inr csvRunning, \<lparr>clock = 0, trace = [ExecSync (psCommand ''Get-CimInstance''),
                                              ExecSync (psCommand ''Get-WmiObject'')]\<rparr>)
   \<and> getRawOutput (winOs (Inl (OsError ''cim'')) (Inl (OsError ''wmi''))) world0
     = (Inl (OsError ''cim''), \<lparr>clock = 0, trace = [ExecSync (psCommand ''Get-CimInstance''),
                                                    ExecSync (psCommand ''Get-WmiObject'')]\<rparr>)"
proof -
  let ?c = "ExecSync (psCommand ''Get-CimInstance'')" and ?m = "ExecSync (psCommand ''Get-WmiObject'')"
  have p: "\<And>a b. platform (winOs a b) = Win32" by (simp add: winOs_def demoOs_def)
  have w: "\<And>a b. elapse (winOs a b) (emit ?c world0) = \<lparr>clock = 0, trace = [?c]\<rparr>"
    "\<And>a b. elapse (winOs a b) (emit ?m \<lparr>clock = 0, trace = [?c]\<rparr>) = \<lparr>clock = 0, trace = [?c, ?m]\<rparr>"
    by (simp_all add: winOs_def demoOs_def elapse_def emit_def world0_def)
  have r: "\<And>a b v. execSyncResult (winOs a b) v (psCommand ''Get-CimInstance'') = a"
    "\<And>a b v. execSyncResult (winOs a b) v (psCommand ''Get-WmiObject'') = b"
    using psCommand_neq by (simp_all add: winOs_def demoOs_def)
  show ?thesis
    using getRawOutput_fallback[OF p w(1)[symmetric] w(2)[symmetric],
            of "Inr csvRunning" "Inl (OsError ''wmi'')" csvRunning "OsError ''cim''" "OsError ''wmi''"]
      getRawOutput_fallback[OF p w(1)[symmetric] w(2)[symmetric],
            of "Inl (OsError ''cim'')" "Inr csvRunning" csvRunning "OsError ''cim''" "OsError ''wmi''"]
      getRawOutput_fallback[OF p w(1)[symmetric] w(2)[symmetric],
            of "Inl (OsError ''cim'')" "Inl (OsError ''wmi'')" csvRunning "OsError ''cim''" "OsError ''wmi''"]
    by (simp add: r)
qed




text \<open>
  Claim C8. Every record that \<open>classify\<close> returns is one of the records it was given,
  has a pid other than the caller's, and has a command line that, in lower case, does
  not contain \<open>antigravity manager\<close>. A record with the command line
  \<open>/Applications/App Manager.app/Contents/MacOS/App Manager\<close> is excluded, and so is
  one with \<open>/Applications/Antigravity Manager.app/Contents/MacOS/Antigravity Manager\<close>.
\<close>

theorem classify_excludes:
  "(\<forall>p \<in> set (classify pf self processList).
       p \<in> set processList \<and> pid p \<noteq> Num self
       \<and> \<not> includesStr (toLowerCase (cmd p)) ''antigravity manager'')
   \<and> classify pf self
        [\<lparr>pid = n, name = nm, cmd = ''/Applications/App Manager.app/Contents/MacOS/App Manager''\<rparr>] = []
   \<and> classify pf self
        [\<lparr>pid = n, name = nm,
          cmd = ''/Applications/Antigravity Manager.app/Contents/MacOS/Antigravity Manager''\<rparr>] = []"
proof (intro conjI ballI)
  fix p assume "p \<in> set (classify pf self processList)"
  then have "p \<in> set processList" "isTarget pf self p" by (auto simp: classify_def)
  then show "p \<in> set processList" "pid p \<noteq> Num self"
    "\<not> includesStr (toLowerCase (cmd p)) ''antigravity manager''"
    by (auto simp: isTarget_def Let_def split: if_splits)
next
  have "\<not> isTarget pf self
     \<lparr>pid = n, name = nm, cmd = ''/Applications/App Manager.app/Contents/MacOS/App Manager''\<rparr>"
    by (cases pf) (simp_all add: isTarget_def Let_def toLowerCase_def lowerChar_def isUpper_def code_def)
  then show "classify pf self
        [\<lparr>pid = n, name = nm, cmd = ''/Applications/App Manager.app/Contents/MacOS/App Manager''\<rparr>] = []"
    by (simp add: classify_def)
next
  have "includesStr (toLowerCase ''/Applications/Antigravity Manager.app/Contents/MacOS/Antigravity Manager'')
          ''antigravity manager''"
    by code_simp
  then have "\<not> isTarget pf self
     \<lparr>pid = n, name = nm, cmd = ''/Applications/Antigravity Manager.app/Contents/MacOS/Antigravity Manager''\<rparr>"
    by (simp add: isTarget_def Let_def)
  then show "classify pf self
        [\<lparr>pid = n, name = nm,
          cmd = ''/Applications/Antigravity Manager.app/Contents/MacOS/Antigravity Manager''\<rparr>] = []"
    by (simp add: classify_def)
qed

text \<open>The caller's own record is dropped and the application's record is kept.\<close>

theorem classify_excludes_witness:
  "classify OtherPlatform 1 [\<lparr>pid = Num 1, name = ''node'', cmd = ''node Antigravity''\<rparr>,
                            \<lparr>pid = Num 2, name = ''Antigravity'', cmd = ''/opt/Antigravity/antigravity''\<rparr>]
     = [\<lparr>pid = Num 2, name = ''Antigravity'', cmd = ''/opt/Antigravity/antigravity''\<rparr>]
   \<and> Num 2 \<noteq> Num 1
   \<and> \<not> includesStr (toLowerCase ''/opt/Antigravity/antigravity'') ''antigravity manager''"
proof -
  let ?ps = "[\<lparr>pid = Num 1, name = ''node'', cmd = ''node Antigravity''\<rparr>,
              \<lparr>pid = Num 2, name = ''Antigravity'', cmd = ''/opt/Antigravity/antigravity''\<rparr>]"
  have c: "classify OtherPlatform 1 ?ps
     = [\<lparr>pid = Num 2, name = ''Antigravity'', cmd = ''/opt/Antigravity/antigravity''\<rparr>]"
    by code_simp
  have "\<forall>p \<in> set (classify OtherPlatform 1 ?ps).
       p \<in> set ?ps \<and> pid p \<noteq> Num 1
       \<and> \<not> includesStr (toLowerCase (cmd p)) ''antigravity manager''"
    using classify_excludes[of OtherPlatform 1 ?ps] by blast
  then show ?thesis unfolding c by simp
qed

text \<open>
  Claim C9. The path translator maps \<open>/mnt/d/rest\<close>, with \<open>d\<close> one lower-case letter, to
  the upper-case letter, a colon and a backslash, followed by \<open>rest\<close> with every slash
  turned into a backslash; a path that is not of this form only has its slashes
  turned into backslashes. \<open>/mnt/c/Program Files/App/App.exe\<close> becomes
  \<open>C:\Program Files\App\App.exe\<close>.
\<close>

theorem toWinPath_drive:
  "(isAsciiLower d \<longrightarrow>
      toWinPath (''/mnt/'' @ [d] @ ''/'' @ rest)
        = upperChar d # CHR '':'' # bslash # slashesToBackslashes rest
      \<and> code (upperChar d) + 32 = code d)
   \<and> ((\<forall>d rest. isAsciiLower d \<longrightarrow> p \<noteq> ''/mnt/'' @ [d] @ ''/'' @ rest)
        \<longrightarrow> toWinPath p = slashesToBackslashes p)
   \<and> toWinPath ''/mnt/c/Program Files/App/App.exe''
        = ''C:'' @ [bslash] @ ''Program Files'' @ [bslash] @ ''App'' @ [bslash] @ ''App.exe''"
proof (intro conjI impI)
  assume d: "isAsciiLower d"
  show u: "code (upperChar d) + 32 = code d" using upperChar_ascii[OF d] .
  have "97 \<le> code d" using d by (simp add: isAsciiLower_def Let_def)
  then have "code (upperChar d) \<noteq> code (CHR ''/'')" using u by (simp add: code_def)
  then have ne: "upperChar d \<noteq> CHR ''/''" by auto
  have "replaceDrive (''/mnt/'' @ [d] @ ''/'' @ rest) = upperChar d # CHR '':'' # bslash # rest"
    using d by (simp add: replaceDrive_def)
  then show "toWinPath (''/mnt/'' @ [d] @ ''/'' @ rest)
        = upperChar d # CHR '':'' # bslash # slashesToBackslashes rest"
    using ne by (simp add: toWinPath_def slashesToBackslashes_def bslash_def)
next
  assume a: "\<forall>d rest. isAsciiLower d \<longrightarrow> p \<noteq> ''/mnt/'' @ [d] @ ''/'' @ rest"
  have "replaceDrive p = p"
  proof (rule ccontr)
    assume "replaceDrive p \<noteq> p"
    then have c: "startsWith p ''/mnt/''" "7 \<le> length p" "isAsciiLower (p ! 5)" "p ! 6 = CHR ''/''"
      by (auto simp: replaceDrive_def split: if_splits)
    then show False using a mnt_form[OF c(1,2,4)] by blast
  qed
  then show "toWinPath p = slashesToBackslashes p" by (simp add: toWinPath_def)
next
  show "toWinPath ''/mnt/c/Program Files/App/App.exe''
        = ''C:'' @ [bslash] @ ''Program Files'' @ [bslash] @ ''App'' @ [bslash] @ ''App.exe''"
    by code_simp
qed

text \<open>A drive mount, and a mount whose name has more than one letter.\<close>

theorem toWinPath_drive_witness:
  "isAsciiLower CHR ''d''
   \<and> toWinPath ''/mnt/d/Apps/Antigravity/Antigravity.exe''
       = ''D:'' @ [bslash] @ ''Apps'' @ [bslash] @ ''Antigravity'' @ [bslash] @ ''Antigravity.exe''
   \<and> toWinPath ''/mnt/data/app'' = [bslash] @ ''mnt'' @ [bslash] @ ''data'' @ [bslash] @ ''app''"
proof -
  have l: "isAsciiLower CHR ''d''" by (simp add: isAsciiLower_def code_def)
  have u: "upperChar CHR ''d'' = CHR ''D''" by (simp add: upperChar_def isLower_def code_def)
  have n: "\<forall>d rest. isAsciiLower d \<longrightarrow> ''/mnt/data/app'' \<noteq> ''/mnt/'' @ [d] @ ''/'' @ rest"
    by simp
  have 1: "toWinPath (''/mnt/'' @ [CHR ''d''] @ ''/'' @ ''Apps/Antigravity/Antigravity.exe'')
      = upperChar CHR ''d'' # CHR '':'' # bslash # slashesToBackslashes ''Apps/Antigravity/Antigravity.exe''"
    using toWinPath_drive[of "CHR ''d''" "''Apps/Antigravity/Antigravity.exe''" "''/mnt/data/app''"] l
    by blast
  have 2: "toWinPath ''/mnt/data/app'' = slashesToBackslashes ''/mnt/data/app''"
    using toWinPath_drive[of "CHR ''d''" "''Apps/Antigravity/Antigravity.exe''" "''/mnt/data/app''"] n
    by blast
  show ?thesis using l 1 2 u by (simp add: slashesToBackslashes_def)
qed

text \<open>
  Claim C10. With a timeout of zero or less, \<open>_waitForProcessExit\<close> fails with the timeout
  error at once: the trace is unchanged, so no poll was made, whether or not the
  application is running.
\<close>

theorem waitForProcessExit_nonpositive:
  "timeoutMs \<le> 0 \<Longrightarrow>
     waitForProcessExit os timeoutMs w = (Inl exitTimeout, elapse os (elapse os w))
     \<and> trace (elapse os (elapse os w)) = trace w"
  by (simp add: waitForProcessExit_def bindIO_def dateNow_def elapse_def
      waitLoop.simps[of os timeoutMs "int (clock w)"])

text \<open>A timeout of zero on a host where the application is not running.\<close>

theorem waitForProcessExit_nonpositive_witness:
  "(0::int) \<le> 0 \<and> waitForProcessExit (demoOs OtherPlatform (\<lambda>w c. Inr []) (\<lambda>w c. Inr ())) 0 world0
     = (Inl exitTimeout, world0)"
proof -
  let ?os = "demoOs OtherPlatform (\<lambda>w c. Inr []) (\<lambda>w c. Inr ())"
  have e: "elapse ?os (elapse ?os world0) = world0" by (simp add: elapse_def demoOs_def world0_def)
  show ?thesis using waitForProcessExit_nonpositive[of 0 ?os world0] e by simp
qed

end
